theory Spec2Isabelle
  imports Complex_Main "HOL-Library.Word" "HOL-Library.Sublist"
begin

section \<open>Loopback tester for a serial link: the two scripts\<close>

text \<open>
  The repository holds two scripts, \<^verbatim>\<open>serial_test_V2.py\<close> and
  \<^verbatim>\<open>serial_test_V3_with_log_without_reconfigure.py\<close>. Each sends a fixed payload in a
  loop, reads back what the port has buffered, counts the trials without a response and the
  trials with a wrong response, and prints an error line and a status line. V3 also appends
  one row per trial to a CSV file.

  Conventions of the embedding:
  \<^item> Python \<^verbatim>\<open>bytes\<close> is a list of 8-bit words, Python \<^verbatim>\<open>str\<close> is \<^typ>\<open>string\<close>
    (characters are bytes; a character above 127 is neither a hexadecimal digit nor
    whitespace, as for Python);
  \<^item> the \<^verbatim>\<open>stats\<close> dictionary has four fixed keys and is a record of unbounded integers;
  \<^item> an exception is a value of \<open>py_error\<close>;
  \<^item> the loop \<^verbatim>\<open>while True\<close> ends only with the user's interrupt; it is run on the list of
    the clock and port readings of the trials completed before the interrupt, one pair
    \<open>(now, response)\<close> per trial. The port opens and raises no \<^verbatim>\<open>SerialException\<close>;
  \<^item> the quotient of two integers and the percentage derived from it are the exact real
    numbers; the rounding of Python's binary floating point is not represented, and the
    status line is kept as the values it shows rather than as formatted text;
  \<^item> the CSV file is the list of its rows, each row the list of its fields; \<open>None\<close> is the
    file that does not exist. Quoting of fields is not represented.
\<close>

subsection \<open>Bytes, exceptions and the built-ins of Python the scripts call\<close>

type_synonym byte = "8 word"
type_synonym bytes = "byte list"

datatype py_error = ValueError | ZeroDivisionError

text \<open>ASCII whitespace as \<^verbatim>\<open>bytes.fromhex\<close> skips it: tab, line feed, vertical tab, form feed,
  carriage return and space.\<close>

definition Py_ISSPACE :: "char \<Rightarrow> bool" where
  "Py_ISSPACE c = (of_char c \<in> {9, 10, 11, 12, 13, 32 :: nat})"

text \<open>The value of a character as a digit: \<open>0-9\<close>, then the letters of either case from 10
  on, and 37 for every other character. A hexadecimal digit has a value below 16.\<close>

definition digit_value :: "char \<Rightarrow> nat" where
  "digit_value c =
     (let n = of_char c in
      if 48 \<le> n \<and> n \<le> 57 then n - 48
      else if 97 \<le> n \<and> n \<le> 122 then n - 87
      else if 65 \<le> n \<and> n \<le> 90 then n - 55
      else 37)"

definition join_nibbles :: "nat \<Rightarrow> nat \<Rightarrow> byte" where
  "join_nibbles hi lo = of_nat (hi * 16 + lo)"

text \<open>\<^verbatim>\<open>bytes.fromhex(s)\<close>: whitespace is skipped before a byte; a byte is two adjacent
  hexadecimal digits; anything else raises \<^verbatim>\<open>ValueError\<close>.\<close>

fun fromhex :: "string \<Rightarrow> py_error + bytes" where
  "fromhex [] = Inr []"
| "fromhex (c # cs) =
     (if Py_ISSPACE c then fromhex cs
      else if digit_value c \<ge> 16 then Inl ValueError
      else (case cs of
              [] \<Rightarrow> Inl ValueError
            | d # ds \<Rightarrow>
                if digit_value d \<ge> 16 then Inl ValueError
                else (case fromhex ds of
                        Inl e \<Rightarrow> Inl e
                      | Inr bs \<Rightarrow> Inr (join_nibbles (digit_value c) (digit_value d) # bs))))"

text \<open>\<^verbatim>\<open>b.hex()\<close>: two lowercase hexadecimal digits per byte.\<close>

definition hexdigit :: "nat \<Rightarrow> char" where
  "hexdigit n = ''0123456789abcdef'' ! n"

definition bytes_hex :: "bytes \<Rightarrow> string" where
  "bytes_hex bs = concat (map (\<lambda>b. [hexdigit (unat b div 16), hexdigit (unat b mod 16)]) bs)"

text \<open>\<^verbatim>\<open>s.upper()\<close> on ASCII text.\<close>

definition upper_char :: "char \<Rightarrow> char" where
  "upper_char c =
     (let n = of_char c :: nat in if 97 \<le> n \<and> n \<le> 122 then char_of (n - 32) else c)"

definition str_upper :: "string \<Rightarrow> string" where
  "str_upper s = map upper_char s"

text \<open>\<^verbatim>\<open>str(i)\<close> for an integer, and the format specifications \<^verbatim>\<open>:<4\<close> and \<^verbatim>\<open>:<15\<close>
  (left-justify, pad with spaces up to the width).\<close>

fun nat_digits :: "nat \<Rightarrow> string" where
  "nat_digits n =
     (if n < 10 then [char_of (48 + n)] else nat_digits (n div 10) @ [char_of (48 + n mod 10)])"

declare nat_digits.simps [simp del]

definition str_int :: "int \<Rightarrow> string" where
  "str_int i = (if i < 0 then CHR ''-'' # nat_digits (nat (- i)) else nat_digits (nat i))"

definition ljust :: "nat \<Rightarrow> string \<Rightarrow> string" where
  "ljust w s = s @ replicate (w - length s) CHR '' ''"

text \<open>\<^verbatim>\<open>a / b\<close> on integers: true division, which raises on a zero divisor.\<close>

definition py_truediv :: "int \<Rightarrow> int \<Rightarrow> py_error + real" where
  "py_truediv a b = (if b = 0 then Inl ZeroDivisionError else Inr (real_of_int a / real_of_int b))"

subsection \<open>Payload codec\<close>

text \<open>\<^verbatim>\<open>hex_to_bytes\<close> is the same function in both scripts.\<close>

definition hex_to_bytes :: "string \<Rightarrow> py_error + bytes" where
  "hex_to_bytes hex_string = fromhex hex_string"

text \<open>\<^verbatim>\<open>response.hex().upper()\<close>, the rendering both scripts use for bytes.\<close>

definition hex_upper :: "bytes \<Rightarrow> string" where
  "hex_upper bs = str_upper (bytes_hex bs)"

subsection \<open>Statistics and what the scripts write\<close>

record stats =
  total_sent :: int
  total_errors :: int
  err_no_resp :: int
  err_mismatch :: int

definition initial_stats :: stats where
  "initial_stats = \<lparr>total_sent = 0, total_errors = 0, err_no_resp = 0, err_mismatch = 0\<rparr>"

text \<open>What a script does to the outside, in order: the port, \<^verbatim>\<open>print\<close> (the text, to
  which \<^verbatim>\<open>print\<close> adds a line break), and the status line written with
  \<^verbatim>\<open>sys.stdout.write\<close>. \<open>Status_V2 total pct_error total_errors pct_no_resp pct_mismatch\<close>
  and \<open>Status_V3 total pct_error total_errors err_no_resp err_mismatch\<close> carry the values
  shown.\<close>

datatype event =
    Port_Open
  | Port_Close
  | Ser_Write bytes
  | Ser_Read_All bytes
  | Print string
  | Status_V2 int real int real real
  | Status_V3 int real int int int

definition rule_line :: string where
  "rule_line = replicate 64 CHR ''-''"

subsection \<open>\<^verbatim>\<open>serial_test_V2.py\<close>\<close>

text \<open>Lines 63 to 83: the analysis of the response. The result is the updated statistics,
  \<^verbatim>\<open>error_occurred\<close>, \<^verbatim>\<open>err_msg\<close> and \<^verbatim>\<open>err_detail\<close>.\<close>

definition analyze_V2 :: "bytes \<Rightarrow> bytes \<Rightarrow> stats \<Rightarrow> stats \<times> bool \<times> string \<times> string" where
  "analyze_V2 target_payload response st =
     (if response = [] then
        (st\<lparr>err_no_resp := err_no_resp st + 1, total_errors := total_errors st + 1\<rparr>,
         True, ''NO RESPONSE'', ''Buffer empty'')
      else if response \<noteq> target_payload then
        (st\<lparr>err_mismatch := err_mismatch st + 1, total_errors := total_errors st + 1\<rparr>,
         True, ''DATA MISMATCH'', ''Rx: '' @ hex_upper response)
      else (st, False, [], []))"

text \<open>Line 90: the error line.\<close>

definition error_line_V2 :: "string \<Rightarrow> int \<Rightarrow> string \<Rightarrow> string \<Rightarrow> string" where
  "error_line_V2 timestamp sent err_msg err_detail =
     ''\<newline>  ['' @ timestamp @ ''] | #'' @ ljust 4 (str_int sent) @ '' | '' @
     ljust 15 err_msg @ '' | '' @ err_detail"

text \<open>Lines 93 to 99: the percentages, guarded by \<^verbatim>\<open>total > 0\<close>.\<close>

record percentages =
  pct_error :: real
  pct_no_resp :: real
  pct_mismatch :: real

definition percentages_V2 :: "stats \<Rightarrow> py_error + percentages" where
  "percentages_V2 st =
     (let total = total_sent st in
      if total > 0 then
        (case py_truediv (total_errors st) total of
           Inl e \<Rightarrow> Inl e
         | Inr q1 \<Rightarrow>
             (case py_truediv (err_no_resp st) total of
                Inl e \<Rightarrow> Inl e
              | Inr q2 \<Rightarrow>
                  (case py_truediv (err_mismatch st) total of
                     Inl e \<Rightarrow> Inl e
                   | Inr q3 \<Rightarrow>
                       Inr \<lparr>pct_error = q1 * 100, pct_no_resp = q2 * 100,
                            pct_mismatch = q3 * 100\<rparr>)))
      else Inr \<lparr>pct_error = 0, pct_no_resp = 0, pct_mismatch = 0\<rparr>)"

text \<open>Lines 54 to 114: one iteration. \<open>now\<close> is the clock reading of line 89, already
  formatted; it is read only when an error occurred.\<close>

definition loop_body_V2 ::
  "bytes \<Rightarrow> string \<Rightarrow> bytes \<Rightarrow> stats \<Rightarrow> stats \<times> event list \<times> py_error option" where
  "loop_body_V2 target_payload now response st0 =
     (let st1 = st0\<lparr>total_sent := total_sent st0 + 1\<rparr>;
          io = [Ser_Write target_payload, Ser_Read_All response];
          (st2, error_occurred, err_msg, err_detail) = analyze_V2 target_payload response st1;
          log = (if error_occurred
                 then [Print (error_line_V2 now (total_sent st2) err_msg err_detail)]
                 else [])
      in case percentages_V2 st2 of
           Inl e \<Rightarrow> (st2, io @ log, Some e)
         | Inr p \<Rightarrow>
             (st2,
              io @ log @
              [Status_V2 (total_sent st2) (pct_error p) (total_errors st2)
                 (pct_no_resp p) (pct_mismatch p)],
              None))"

fun loop_V2 ::
  "bytes \<Rightarrow> (string \<times> bytes) list \<Rightarrow> stats \<Rightarrow> stats \<times> event list \<times> py_error option" where
  "loop_V2 target_payload [] st = (st, [], None)"
| "loop_V2 target_payload ((now, response) # rest) st =
     (case loop_body_V2 target_payload now response st of
        (st', out, Some e) \<Rightarrow> (st', out, Some e)
      | (st', out, None) \<Rightarrow>
          (case loop_V2 target_payload rest st' of
             (st'', out', exc) \<Rightarrow> (st'', out @ out', exc)))"

text \<open>\<^verbatim>\<open>main\<close>, lines 31 to 127. The port is opened and the banner printed before the
  payload is parsed; an exception other than the interrupt leaves through
  \<^verbatim>\<open>finally\<close>, which closes the port. \<open>hex_data\<close> is the module's setting of that name.\<close>

definition banner_V2 :: "string \<Rightarrow> string \<Rightarrow> event list" where
  "banner_V2 port_name hex_data =
     [Print (''Connected to '' @ port_name @ '' @ 115200. Sending: '' @ hex_data),
      Print rule_line,
      Print ''  [TIMESTAMP]           | #MSG  | ERROR TYPE      | DETAILS'',
      Print rule_line]"

definition main_V2 ::
  "string \<Rightarrow> string \<Rightarrow> (string \<times> bytes) list \<Rightarrow> stats \<times> event list \<times> py_error option" where
  "main_V2 port_name hex_data inputs =
     (let start = Port_Open # banner_V2 port_name hex_data;
          finally = [Port_Close, Print ''Port closed.'']
      in case hex_to_bytes hex_data of
           Inl e \<Rightarrow> (initial_stats, start @ finally, Some e)
         | Inr target_payload \<Rightarrow>
             (case loop_V2 target_payload inputs initial_stats of
                (st, out, Some e) \<Rightarrow> (st, start @ out @ finally, Some e)
              | (st, out, None) \<Rightarrow>
                  (st,
                   start @ out @ [Print ''\<newline>\<newline>Test stopped by user.''] @ finally,
                   None)))"

subsection \<open>\<^verbatim>\<open>serial_test_V3_with_log_without_reconfigure.py\<close>\<close>

type_synonym csv_file = "string list list option"

definition csv_header :: "string list" where
  "csv_header = [''timestamp'', ''seq_no'', ''tx_hex'', ''rx_hex'', ''error_type'']"

text \<open>\<^verbatim>\<open>init_csv\<close>, lines 34 to 46: mode \<^verbatim>\<open>"x"\<close> creates the file and fails when it
  exists, and that failure is swallowed.\<close>

definition init_csv :: "csv_file \<Rightarrow> csv_file" where
  "init_csv f = (case f of None \<Rightarrow> Some [csv_header] | Some rows \<Rightarrow> Some rows)"

text \<open>Lines 105 to 113: mode \<^verbatim>\<open>"a"\<close> creates the file when it is missing and writes at
  its end.\<close>

definition append_row :: "string list \<Rightarrow> csv_file \<Rightarrow> csv_file" where
  "append_row row f = (case f of None \<Rightarrow> Some [row] | Some rows \<Rightarrow> Some (rows @ [row]))"

text \<open>Lines 86 to 96: the analysis; the result is the statistics and \<^verbatim>\<open>error_type\<close>.\<close>

definition analyze_V3 :: "bytes \<Rightarrow> bytes \<Rightarrow> stats \<Rightarrow> stats \<times> string" where
  "analyze_V3 target_payload response st =
     (if response = [] then
        (st\<lparr>err_no_resp := err_no_resp st + 1, total_errors := total_errors st + 1\<rparr>,
         ''NO RESPONSE'')
      else if response \<noteq> target_payload then
        (st\<lparr>err_mismatch := err_mismatch st + 1, total_errors := total_errors st + 1\<rparr>,
         ''DATA MISMATCH'')
      else (st, []))"

text \<open>Lines 100 to 102: the error line.\<close>

definition error_line_V3 :: "string \<Rightarrow> int \<Rightarrow> string \<Rightarrow> string" where
  "error_line_V3 timestamp seq_no error_type =
     ''\<newline>  ['' @ timestamp @ ''] | #'' @ ljust 4 (str_int seq_no) @ '' | '' @ error_type"

text \<open>Lines 83, 84 and 107 to 113: the row of a trial.\<close>

definition csv_row_V3 :: "bytes \<Rightarrow> string \<Rightarrow> int \<Rightarrow> bytes \<Rightarrow> string \<Rightarrow> string list" where
  "csv_row_V3 target_payload timestamp seq_no response error_type =
     (let tx_hex = hex_upper target_payload;
          rx_hex = (if response \<noteq> [] then hex_upper response else [])
      in [timestamp, str_int seq_no, tx_hex, rx_hex, error_type])"

text \<open>Lines 116 and 117: the error percentage of the status line, with no guard.\<close>

definition pct_error_V3 :: "stats \<Rightarrow> py_error + real" where
  "pct_error_V3 st =
     (let total = total_sent st in
      case py_truediv (total_errors st) total of
        Inl e \<Rightarrow> Inl e
      | Inr q \<Rightarrow> Inr (q * 100))"

text \<open>Lines 71 to 129: one iteration. \<open>now\<close> is the clock reading of line 71, already
  formatted. The row is in the file before the percentage is computed.\<close>

definition loop_body_V3 ::
  "bytes \<Rightarrow> string \<Rightarrow> bytes \<Rightarrow> stats \<times> csv_file \<Rightarrow>
   (stats \<times> csv_file) \<times> event list \<times> py_error option" where
  "loop_body_V3 target_payload now response s =
     (let (st0, file) = s;
          timestamp = now;
          seq_no = total_sent st0 + 1;
          st1 = st0\<lparr>total_sent := seq_no\<rparr>;
          io = [Ser_Write target_payload, Ser_Read_All response];
          (st2, error_type) = analyze_V3 target_payload response st1;
          log = (if error_type \<noteq> [] then [Print (error_line_V3 timestamp seq_no error_type)]
                 else []);
          file' = append_row (csv_row_V3 target_payload timestamp seq_no response error_type) file
      in case pct_error_V3 st2 of
           Inl e \<Rightarrow> ((st2, file'), io @ log, Some e)
         | Inr pct \<Rightarrow>
             ((st2, file'),
              io @ log @
              [Status_V3 (total_sent st2) pct (total_errors st2) (err_no_resp st2)
                 (err_mismatch st2)],
              None))"

fun loop_V3 ::
  "bytes \<Rightarrow> (string \<times> bytes) list \<Rightarrow> stats \<times> csv_file \<Rightarrow>
   (stats \<times> csv_file) \<times> event list \<times> py_error option" where
  "loop_V3 target_payload [] s = (s, [], None)"
| "loop_V3 target_payload ((now, response) # rest) s =
     (case loop_body_V3 target_payload now response s of
        (s', out, Some e) \<Rightarrow> (s', out, Some e)
      | (s', out, None) \<Rightarrow>
          (case loop_V3 target_payload rest s' of
             (s'', out', exc) \<Rightarrow> (s'', out @ out', exc)))"

text \<open>\<^verbatim>\<open>main\<close>, lines 49 to 140. The file is initialised and the payload parsed before
  the \<^verbatim>\<open>try\<close> that opens the port, so a \<^verbatim>\<open>ValueError\<close> leaves at once.\<close>

definition banner_V3 :: "event list" where
  "banner_V3 =
     [Print rule_line,
      Print ''  [TIMESTAMP]           | #MSG  | ERROR TYPE'',
      Print rule_line]"

definition main_V3 ::
  "string \<Rightarrow> (string \<times> bytes) list \<Rightarrow> csv_file \<Rightarrow>
   (stats \<times> csv_file) \<times> event list \<times> py_error option" where
  "main_V3 hex_data inputs file0 =
     (let file1 = init_csv file0;
          finally = [Port_Close, Print ''Port closed.'']
      in case hex_to_bytes hex_data of
           Inl e \<Rightarrow> ((initial_stats, file1), [], Some e)
         | Inr target_payload \<Rightarrow>
             (case loop_V3 target_payload inputs (initial_stats, file1) of
                (s, out, Some e) \<Rightarrow> (s, banner_V3 @ [Port_Open] @ out @ finally, Some e)
              | (s, out, None) \<Rightarrow>
                  (s,
                   banner_V3 @ [Port_Open] @ out @
                   [Print ''\<newline>\<newline>Test stopped by user.''] @ finally,
                   None)))"

text \<open>The program run again and again on the same file, each run with its own readings:
  the file a run leaves is the file the next run finds.\<close>

fun runs_V3 :: "string \<Rightarrow> (string \<times> bytes) list list \<Rightarrow> csv_file \<Rightarrow> csv_file" where
  "runs_V3 hex_data [] file = file"
| "runs_V3 hex_data (inputs # later) file =
     runs_V3 hex_data later (snd (fst (main_V3 hex_data inputs file)))"

subsection \<open>Vocabulary of the specification\<close>

text \<open>The specification's outcome of a trial, and its classification rule, written from
  its words: empty \<open>rx\<close> is no response, else \<open>rx\<close> different from \<open>tx\<close> is a mismatch,
  else a match.\<close>

datatype outcome = Match | NoResponse | Mismatch

definition classify :: "bytes \<Rightarrow> bytes \<Rightarrow> outcome" where
  "classify tx rx = (if rx = [] then NoResponse else if rx \<noteq> tx then Mismatch else Match)"

text \<open>The name of an outcome in the scripts: the empty string stands for a match.\<close>

definition outcome_kind :: "outcome \<Rightarrow> string" where
  "outcome_kind oc =
     (case oc of Match \<Rightarrow> [] | NoResponse \<Rightarrow> ''NO RESPONSE'' | Mismatch \<Rightarrow> ''DATA MISMATCH'')"

text \<open>The specification's \<open>record\<close> step is what one iteration does to the statistics.\<close>

definition record_V2 :: "bytes \<Rightarrow> string \<Rightarrow> bytes \<Rightarrow> stats \<Rightarrow> stats" where
  "record_V2 tx now rx st = fst (loop_body_V2 tx now rx st)"

definition record_V3 :: "bytes \<Rightarrow> string \<Rightarrow> bytes \<Rightarrow> csv_file \<Rightarrow> stats \<Rightarrow> stats" where
  "record_V3 tx now rx file st = fst (fst (loop_body_V3 tx now rx (st, file)))"

text \<open>The error lines among the events of an iteration.\<close>

fun printed :: "event list \<Rightarrow> string list" where
  "printed [] = []"
| "printed (Print text # es) = text # printed es"
| "printed (e # es) = printed es"

text \<open>Whether an event uses the port for a transfer.\<close>

fun is_transfer :: "event \<Rightarrow> bool" where
  "is_transfer (Ser_Write bs) = True"
| "is_transfer (Ser_Read_All bs) = True"
| "is_transfer e = False"

text \<open>The normal form of a hexadecimal string: no whitespace, upper case.\<close>

definition normal_form :: "string \<Rightarrow> string" where
  "normal_form s = str_upper (filter (\<lambda>c. \<not> Py_ISSPACE c) s)"

text \<open>The two conditions under which the specification lets the parser fail.\<close>

definition is_hexdigit :: "char \<Rightarrow> bool" where
  "is_hexdigit c = (digit_value c < 16)"

definition odd_digit_count :: "string \<Rightarrow> bool" where
  "odd_digit_count s = odd (length (filter is_hexdigit s))"

definition has_foreign_char :: "string \<Rightarrow> bool" where
  "has_foreign_char s = list_ex (\<lambda>c. \<not> is_hexdigit c \<and> \<not> Py_ISSPACE c) s"

text \<open>The groups of a string: its maximal runs of characters that are not whitespace. A
  group is well formed when it is an even number of hexadecimal digits.\<close>

fun groups :: "string \<Rightarrow> string list" where
  "groups [] = []"
| "groups (c # cs) =
     (if Py_ISSPACE c then groups cs
      else if cs = [] \<or> Py_ISSPACE (hd cs) then [c] # groups cs
      else (case groups cs of [] \<Rightarrow> [[c]] | g # gs \<Rightarrow> (c # g) # gs))"

definition group_ok :: "string \<Rightarrow> bool" where
  "group_ok g = (even (length g) \<and> list_all is_hexdigit g)"

text \<open>The rows a run of V3 appends for its readings, numbered from \<open>seq_no\<close> on.\<close>

fun rows_of_run :: "bytes \<Rightarrow> int \<Rightarrow> (string \<times> bytes) list \<Rightarrow> string list list" where
  "rows_of_run tx seq_no [] = []"
| "rows_of_run tx seq_no ((now, rx) # rest) =
     csv_row_V3 tx now seq_no rx (outcome_kind (classify tx rx)) # rows_of_run tx (seq_no + 1) rest"

text \<open>The relation between the counters that the specification requires at all times, with
  the signs of the two error counters.\<close>

definition counters_ok :: "stats \<Rightarrow> bool" where
  "counters_ok st =
     (total_errors st = err_no_resp st + err_mismatch st \<and> total_errors st \<le> total_sent st \<and>
      0 \<le> err_no_resp st \<and> 0 \<le> err_mismatch st)"

text \<open>The setting \<^verbatim>\<open>hex_data\<close> of each script (line 16 of V2, line 15 of V3), and the
  readings of the specification's scenario: the payload echoed three times, then nothing,
  then the payload with its second byte changed to 01. The clock readings are arbitrary.\<close>

definition hex_data_V2 :: string where
  "hex_data_V2 = ''5A 00 00 00 00 00 f6 96 00 00''"

definition hex_data_V3 :: string where
  "hex_data_V3 = ''5A 00 00 00 00 00 F6 96 00 00''"

definition scenario_payload :: bytes where
  "scenario_payload = [0x5A, 0, 0, 0, 0, 0, 0xF6, 0x96, 0, 0]"

definition scenario_flipped :: bytes where
  "scenario_flipped = [0x5A, 1, 0, 0, 0, 0, 0xF6, 0x96, 0, 0]"

definition scenario_inputs ::
  "string \<Rightarrow> string \<Rightarrow> string \<Rightarrow> string \<Rightarrow> string \<Rightarrow> (string \<times> bytes) list" where
  "scenario_inputs t1 t2 t3 t4 t5 =
     [(t1, scenario_payload), (t2, scenario_payload), (t3, scenario_payload), (t4, []),
      (t5, scenario_flipped)]"

section \<open>Properties\<close>

subsection \<open>Characters and nibbles\<close>

lemma hexdigit_table:
  "\<forall>n \<in> {0..<16}. of_char (hexdigit n) = (if n < 10 then 48 + n else 87 + n :: nat)"
  by code_simp

lemma of_char_hexdigit:
  "n < 16 \<Longrightarrow> of_char (hexdigit n) = (if n < 10 then 48 + n else 87 + n :: nat)"
  using hexdigit_table by simp

lemma of_char_upper_char:
  "of_char (upper_char c) =
     (if 97 \<le> (of_char c :: nat) \<and> (of_char c :: nat) \<le> 122 then of_char c - 32
      else (of_char c :: nat))"
proof -
  have "(of_char c :: nat) - 32 < 256"
    using nat_of_char_less_256 [of c] by arith
  then show ?thesis by (simp add: upper_char_def Let_def)
qed

lemma digit_value_not_space: "digit_value c < 16 \<Longrightarrow> \<not> Py_ISSPACE c"
  by (simp add: digit_value_def Py_ISSPACE_def Let_def split: if_splits)

lemma upper_hexdigit_digit_value:
  assumes "digit_value c < 16"
  shows "upper_char (hexdigit (digit_value c)) = upper_char c"
proof (rule of_char_eqI [where ?'a = nat])
  show "of_char (upper_char (hexdigit (digit_value c))) = (of_char (upper_char c) :: nat)"
    using assms
    by (simp add: of_char_upper_char of_char_hexdigit)
       (simp add: digit_value_def Let_def split: if_splits)
qed

lemma digit_value_upper_hexdigit:
  assumes "n < 16"
  shows "digit_value (upper_char (hexdigit n)) = n"
  using assms
  by (simp add: digit_value_def [of "upper_char (hexdigit n)"] Let_def of_char_upper_char
      of_char_hexdigit)

lemma unat_join_nibbles:
  assumes "a < 16" "b < 16"
  shows "unat (join_nibbles a b) = a * 16 + b"
proof -
  have "a * 16 + b < 256" using assms by arith
  then show ?thesis unfolding join_nibbles_def unat_of_nat by simp
qed

lemma join_nibbles_split: "join_nibbles (unat b div 16) (unat b mod 16) = b"
  unfolding join_nibbles_def by simp

lemma byte_nibbles_bounded: "unat (b :: byte) div 16 < 16 \<and> unat b mod 16 < 16"
proof -
  have "unat b < 2 ^ LENGTH(8)" by (rule unsigned_less)
  then have "unat b < 256" by simp
  then show ?thesis by arith
qed

subsection \<open>Parsing and rendering are inverse up to the normal form\<close>

lemma fromhex_pair:
  assumes "digit_value c < 16" "digit_value d < 16"
  shows "fromhex (c # d # ds) =
           (case fromhex ds of Inl e \<Rightarrow> Inl e
            | Inr bs \<Rightarrow> Inr (join_nibbles (digit_value c) (digit_value d) # bs))"
  using assms digit_value_not_space [OF assms(1)] by simp

lemma hex_upper_Nil: "hex_upper [] = []"
  by (simp add: hex_upper_def bytes_hex_def str_upper_def)

lemma hex_upper_Cons:
  "hex_upper (b # bs) =
     upper_char (hexdigit (unat b div 16)) # upper_char (hexdigit (unat b mod 16)) # hex_upper bs"
  by (simp add: hex_upper_def bytes_hex_def str_upper_def)

lemma fromhex_hex_upper:
  "fromhex s = Inr bs \<Longrightarrow> hex_upper bs = normal_form s"
proof (induction s arbitrary: bs rule: fromhex.induct)
  case 1
  then show ?case by (simp add: hex_upper_Nil normal_form_def str_upper_def)
next
  case (2 c cs)
  show ?case
  proof (cases "Py_ISSPACE c")
    case True
    with 2 show ?thesis by (simp add: normal_form_def)
  next
    case False
    with "2.prems" obtain d ds bs' where
      cs: "cs = d # ds" and c: "digit_value c < 16" and d: "digit_value d < 16"
      and r: "fromhex ds = Inr bs'"
      and bs: "bs = join_nibbles (digit_value c) (digit_value d) # bs'"
      by (auto split: if_splits list.splits sum.splits)
    have ih: "hex_upper bs' = normal_form ds"
      using "2.IH"(2) [OF False _ cs _ r] c d by simp
    have "hex_upper bs = [upper_char c, upper_char d] @ hex_upper bs'"
      using c d
      by (simp add: bs hex_upper_Cons unat_join_nibbles upper_hexdigit_digit_value)
    moreover have "normal_form (c # cs) = [upper_char c, upper_char d] @ normal_form ds"
      using False digit_value_not_space [OF d] by (simp add: cs normal_form_def str_upper_def)
    ultimately show ?thesis using ih by simp
  qed
qed

lemma fromhex_hex_upper_Cons:
  "fromhex (hex_upper (b # bs)) =
     (case fromhex (hex_upper bs) of Inl e \<Rightarrow> Inl e | Inr bs' \<Rightarrow> Inr (b # bs'))"
proof -
  let ?h = "upper_char (hexdigit (unat b div 16))"
  let ?l = "upper_char (hexdigit (unat b mod 16))"
  have dhi: "digit_value ?h = unat b div 16"
    using byte_nibbles_bounded [of b] digit_value_upper_hexdigit [of "unat b div 16"] by blast
  have dlo: "digit_value ?l = unat b mod 16"
    using byte_nibbles_bounded [of b] digit_value_upper_hexdigit [of "unat b mod 16"] by blast
  have "digit_value ?h < 16" "digit_value ?l < 16"
    using byte_nibbles_bounded [of b] unfolding dhi dlo by blast+
  from fromhex_pair [OF this, of "hex_upper bs"]
  have "fromhex (?h # ?l # hex_upper bs) =
     (case fromhex (hex_upper bs) of Inl e \<Rightarrow> Inl e | Inr bs' \<Rightarrow> Inr (b # bs'))"
    unfolding dhi dlo join_nibbles_split .
  then show ?thesis
    by (simp only: hex_upper_Cons)
qed

lemma fromhex_of_hex_upper: "fromhex (hex_upper bs) = Inr bs"
proof (induction bs)
  case Nil
  show ?case by (simp only: hex_upper_Nil fromhex.simps)
next
  case (Cons b bs)
  show ?case by (simp only: fromhex_hex_upper_Cons Cons.IH sum.case)
qed

lemma hex_upper_inj:
  assumes "hex_upper bs = hex_upper bs'"
  shows "bs = bs'"
proof -
  have "Inr bs = fromhex (hex_upper bs)" by (simp only: fromhex_of_hex_upper)
  also have "\<dots> = fromhex (hex_upper bs')" by (simp only: assms)
  also have "\<dots> = Inr bs'" by (simp only: fromhex_of_hex_upper)
  finally show ?thesis by (simp only: sum.inject)
qed

text \<open>
  C6, as amended. For every string that parses, rendering the parsed payload gives the
  string's normal form (whitespace removed, upper case); hence two strings that parse and
  differ only in letter case or in the placement of whitespace give the same payload. The
  instance is \<^verbatim>\<open>5a 00 00 00 00 00 f6 96 00 00\<close> and \<^verbatim>\<open>5A000000 0000F6 9600 00\<close>, ten
  bytes each.
\<close>

theorem hex_codec_normal_form:
  "(hex_to_bytes s = Inr bs \<longrightarrow> hex_upper bs = normal_form s) \<and>
   (hex_to_bytes s = Inr bs \<and> hex_to_bytes t = Inr bs' \<and> normal_form s = normal_form t
      \<longrightarrow> bs = bs')"
proof (intro conjI impI)
  assume "hex_to_bytes s = Inr bs"
  then show "hex_upper bs = normal_form s"
    unfolding hex_to_bytes_def by (rule fromhex_hex_upper)
next
  assume a: "hex_to_bytes s = Inr bs \<and> hex_to_bytes t = Inr bs' \<and> normal_form s = normal_form t"
  from a have ps: "fromhex s = Inr bs" and pt: "fromhex t = Inr bs'"
    unfolding hex_to_bytes_def by blast+
  have "hex_upper bs = normal_form s"
    using ps by (rule fromhex_hex_upper)
  moreover have "hex_upper bs' = normal_form t"
    using pt by (rule fromhex_hex_upper)
  ultimately have "hex_upper bs = hex_upper bs'" using a by simp
  then show "bs = bs'" by (rule hex_upper_inj)
qed

theorem hex_codec_normal_form_witness:
  "hex_to_bytes ''5a 00 00 00 00 00 f6 96 00 00'' = Inr [0x5A, 0, 0, 0, 0, 0, 0xF6, 0x96, 0, 0] \<and>
   hex_to_bytes ''5A000000 0000F6 9600 00'' = Inr [0x5A, 0, 0, 0, 0, 0, 0xF6, 0x96, 0, 0] \<and>
   normal_form ''5a 00 00 00 00 00 f6 96 00 00'' = normal_form ''5A000000 0000F6 9600 00'' \<and>
   hex_upper [0x5A, 0, 0, 0, 0, 0, 0xF6, 0x96, 0, 0] = ''5A0000000000F6960000''"
proof -
  let ?s = "''5a 00 00 00 00 00 f6 96 00 00''"
  let ?t = "''5A000000 0000F6 9600 00''"
  let ?b = "[0x5A, 0, 0, 0, 0, 0, 0xF6, 0x96, 0, 0] :: bytes"
  have s: "hex_to_bytes ?s = Inr ?b" by code_simp
  have t: "hex_to_bytes ?t = Inr ?b" by code_simp
  have n: "normal_form ?s = normal_form ?t" by code_simp
  have nf: "normal_form ?s = ''5A0000000000F6960000''" by code_simp
  from hex_codec_normal_form [of ?s ?b ?t ?b] s t n
  have "hex_upper ?b = normal_form ?s" by blast
  with s t n nf show ?thesis by simp
qed

text \<open>
  C6 as stated names \<^verbatim>\<open>5A000000 00F6 9600 00\<close> as the second string. It has eighteen
  digits and parses to nine bytes, so the two strings of the claim give different payloads.
\<close>

theorem hex_example_counterexample:
  "hex_to_bytes ''5a 00 00 00 00 00 f6 96 00 00'' \<noteq> hex_to_bytes ''5A000000 00F6 9600 00''"
  by code_simp

subsection \<open>One iteration\<close>

lemma percentages_V2_value:
  "percentages_V2 st =
     (if total_sent st > 0 then
        Inr \<lparr>pct_error = real_of_int (total_errors st) / real_of_int (total_sent st) * 100,
             pct_no_resp = real_of_int (err_no_resp st) / real_of_int (total_sent st) * 100,
             pct_mismatch = real_of_int (err_mismatch st) / real_of_int (total_sent st) * 100\<rparr>
      else Inr \<lparr>pct_error = 0, pct_no_resp = 0, pct_mismatch = 0\<rparr>)"
  by (simp add: percentages_V2_def py_truediv_def Let_def)

lemma pct_error_V3_value:
  "pct_error_V3 st =
     (if total_sent st = 0 then Inl ZeroDivisionError
      else Inr (real_of_int (total_errors st) / real_of_int (total_sent st) * 100))"
  by (simp add: pct_error_V3_def py_truediv_def Let_def)

lemma analyze_V2_stats:
  "fst (analyze_V2 tx rx st) =
     (case classify tx rx of
        Match \<Rightarrow> st
      | NoResponse \<Rightarrow> st\<lparr>err_no_resp := err_no_resp st + 1, total_errors := total_errors st + 1\<rparr>
      | Mismatch \<Rightarrow> st\<lparr>err_mismatch := err_mismatch st + 1, total_errors := total_errors st + 1\<rparr>)"
  by (simp add: analyze_V2_def classify_def)

lemma analyze_V3_stats:
  "fst (analyze_V3 tx rx st) = fst (analyze_V2 tx rx st)"
  by (simp add: analyze_V2_def analyze_V3_def)

lemma analyze_V3_kind: "snd (analyze_V3 tx rx st) = outcome_kind (classify tx rx)"
  by (simp add: analyze_V3_def classify_def outcome_kind_def)

lemma analyze_V2_kind: "fst (snd (snd (analyze_V2 tx rx st))) = outcome_kind (classify tx rx)"
  by (simp add: analyze_V2_def classify_def outcome_kind_def)

lemma analyze_V2_flag: "fst (snd (analyze_V2 tx rx st)) = (classify tx rx \<noteq> Match)"
  by (simp add: analyze_V2_def classify_def)

lemma loop_body_V2_stats:
  "fst (loop_body_V2 tx now rx st) = fst (analyze_V2 tx rx (st\<lparr>total_sent := total_sent st + 1\<rparr>))"
  by (simp add: loop_body_V2_def Let_def percentages_V2_value split: prod.splits)

lemma loop_body_V2_no_exception: "snd (snd (loop_body_V2 tx now rx st)) = None"
  by (simp add: loop_body_V2_def Let_def percentages_V2_value split: prod.splits)

lemma loop_body_V3_stats:
  "fst (fst (loop_body_V3 tx now rx (st, file))) =
     fst (analyze_V2 tx rx (st\<lparr>total_sent := total_sent st + 1\<rparr>))"
  by (simp add: loop_body_V3_def Let_def analyze_V3_stats [symmetric]
      split: prod.splits sum.splits)

lemma total_sent_analyze_V2: "total_sent (fst (analyze_V2 tx rx st)) = total_sent st"
  by (simp add: analyze_V2_def)

lemma loop_body_V3_exception:
  "snd (snd (loop_body_V3 tx now rx (st, file))) =
     (if total_sent st + 1 = 0 then Some ZeroDivisionError else None)"
proof -
  have "total_sent (fst (analyze_V3 tx rx (st\<lparr>total_sent := total_sent st + 1\<rparr>))) =
          total_sent st + 1"
    by (simp add: analyze_V3_stats total_sent_analyze_V2)
  then show ?thesis
    by (auto simp: loop_body_V3_def Let_def pct_error_V3_value split: prod.splits)
qed

lemma loop_body_V3_file:
  "snd (fst (loop_body_V3 tx now rx (st, file))) =
     append_row (csv_row_V3 tx now (total_sent st + 1) rx (outcome_kind (classify tx rx))) file"
  using analyze_V3_kind [of tx rx "st\<lparr>total_sent := total_sent st + 1\<rparr>"]
  by (auto simp: loop_body_V3_def Let_def split: prod.splits sum.splits)


subsection \<open>Classification and the record step\<close>

text \<open>
  C1. Both scripts classify a trial by the same checks in the same order: an empty response
  is \<^verbatim>\<open>NO RESPONSE\<close>; otherwise a response different from the payload is
  \<^verbatim>\<open>DATA MISMATCH\<close>; otherwise the trial is a match, no error is flagged and the
  analysis leaves every counter as it was.
\<close>

theorem classification_order:
  "snd (analyze_V3 tx rx st) = outcome_kind (classify tx rx) \<and>
   fst (snd (snd (analyze_V2 tx rx st))) = outcome_kind (classify tx rx) \<and>
   fst (snd (analyze_V2 tx rx st)) = (classify tx rx \<noteq> Match) \<and>
   (rx = [] \<longrightarrow> classify tx rx = NoResponse) \<and>
   (rx \<noteq> [] \<and> rx \<noteq> tx \<longrightarrow> classify tx rx = Mismatch) \<and>
   (rx \<noteq> [] \<and> rx = tx \<longrightarrow> classify tx rx = Match) \<and>
   (classify tx rx = Match \<longrightarrow>
      fst (analyze_V2 tx rx st) = st \<and> fst (analyze_V3 tx rx st) = st)"
  by (simp add: analyze_V3_kind analyze_V2_kind analyze_V2_flag analyze_V3_stats
      analyze_V2_stats) (simp add: classify_def)

theorem classification_order_witness:
  "classify [0x5A, 0] [] = NoResponse \<and>
   classify [0x5A, 0] [0x5A, 1] = Mismatch \<and>
   classify [0x5A, 0] [0x5A, 0] = Match \<and>
   analyze_V2 [0x5A, 0] [0x5A, 0] initial_stats = (initial_stats, False, [], []) \<and>
   analyze_V3 [0x5A, 0] [0x5A, 0] initial_stats = (initial_stats, [])"
proof -
  let ?tx = "[0x5A, 0] :: bytes"
  have a: "([] :: bytes) = []" by simp
  have b: "[0x5A, 1] \<noteq> [] \<and> [0x5A, 1] \<noteq> ?tx" by simp
  have c: "?tx \<noteq> [] \<and> ?tx = ?tx" by simp
  from classification_order [of ?tx "[]" initial_stats] a
  have 1: "classify ?tx [] = NoResponse" by blast
  from classification_order [of ?tx "[0x5A, 1]" initial_stats] b
  have 2: "classify ?tx [0x5A, 1] = Mismatch" by blast
  from classification_order [of ?tx ?tx initial_stats] c
  have 3: "classify ?tx ?tx = Match" by blast
  from classification_order [of ?tx ?tx initial_stats] 3
  have 4: "fst (analyze_V2 ?tx ?tx initial_stats) = initial_stats \<and>
           fst (analyze_V3 ?tx ?tx initial_stats) = initial_stats" by blast
  have 5: "snd (analyze_V2 ?tx ?tx initial_stats) = (False, [], [])"
    by (simp add: analyze_V2_def)
  have 6: "snd (analyze_V3 ?tx ?tx initial_stats) = []"
    by (simp add: analyze_V3_def)
  from 4 5 have 7: "analyze_V2 ?tx ?tx initial_stats = (initial_stats, False, [], [])"
    by (simp add: prod_eq_iff)
  from 4 6 have 8: "analyze_V3 ?tx ?tx initial_stats = (initial_stats, [])"
    by (simp add: prod_eq_iff)
  from 1 2 3 7 8 show ?thesis by blast
qed

lemma record_V2_value:
  "record_V2 tx now rx st =
     (case classify tx rx of
        Match \<Rightarrow> st\<lparr>total_sent := total_sent st + 1\<rparr>
      | NoResponse \<Rightarrow>
          st\<lparr>total_sent := total_sent st + 1, err_no_resp := err_no_resp st + 1,
             total_errors := total_errors st + 1\<rparr>
      | Mismatch \<Rightarrow>
          st\<lparr>total_sent := total_sent st + 1, err_mismatch := err_mismatch st + 1,
             total_errors := total_errors st + 1\<rparr>)"
  by (simp add: record_V2_def loop_body_V2_stats analyze_V2_stats split: outcome.splits)

lemma record_V3_value: "record_V3 tx now rx file st = record_V2 tx now rx st"
  by (simp add: record_V3_def record_V2_def loop_body_V3_stats loop_body_V2_stats)

text \<open>
  C3. One iteration adds exactly 1 to \<open>total_sent\<close>. When the trial is not a match it also
  adds 1 to \<open>total_errors\<close> and 1 to exactly one of \<open>err_no_resp\<close> (no response) and
  \<open>err_mismatch\<close> (mismatch), leaving the other as it was. When the trial is a match, the
  three error counters are unchanged. No counter decreases. This holds for V2 and for V3.
\<close>

theorem record_step_counters:
  "total_sent (record_V2 tx now rx st) = total_sent st + 1 \<and>
   (classify tx rx = NoResponse \<longrightarrow>
      total_errors (record_V2 tx now rx st) = total_errors st + 1 \<and>
      err_no_resp (record_V2 tx now rx st) = err_no_resp st + 1 \<and>
      err_mismatch (record_V2 tx now rx st) = err_mismatch st) \<and>
   (classify tx rx = Mismatch \<longrightarrow>
      total_errors (record_V2 tx now rx st) = total_errors st + 1 \<and>
      err_mismatch (record_V2 tx now rx st) = err_mismatch st + 1 \<and>
      err_no_resp (record_V2 tx now rx st) = err_no_resp st) \<and>
   (classify tx rx = Match \<longrightarrow>
      total_errors (record_V2 tx now rx st) = total_errors st \<and>
      err_no_resp (record_V2 tx now rx st) = err_no_resp st \<and>
      err_mismatch (record_V2 tx now rx st) = err_mismatch st) \<and>
   total_errors st \<le> total_errors (record_V2 tx now rx st) \<and>
   err_no_resp st \<le> err_no_resp (record_V2 tx now rx st) \<and>
   err_mismatch st \<le> err_mismatch (record_V2 tx now rx st) \<and>
   record_V3 tx now rx file st = record_V2 tx now rx st"
  by (cases "classify tx rx") (simp_all add: record_V3_value record_V2_value)

theorem record_step_counters_witness:
  "record_V2 [0x5A, 0] ''12:00:00.000'' []
     \<lparr>total_sent = 7, total_errors = 3, err_no_resp = 2, err_mismatch = 1\<rparr> =
     \<lparr>total_sent = 8, total_errors = 4, err_no_resp = 3, err_mismatch = 1\<rparr> \<and>
   record_V2 [0x5A, 0] ''12:00:00.000'' [0x5A, 1]
     \<lparr>total_sent = 7, total_errors = 3, err_no_resp = 2, err_mismatch = 1\<rparr> =
     \<lparr>total_sent = 8, total_errors = 4, err_no_resp = 2, err_mismatch = 2\<rparr> \<and>
   record_V3 [0x5A, 0] ''12:00:00.000'' [0x5A, 0] None
     \<lparr>total_sent = 7, total_errors = 3, err_no_resp = 2, err_mismatch = 1\<rparr> =
     \<lparr>total_sent = 8, total_errors = 3, err_no_resp = 2, err_mismatch = 1\<rparr>"
proof -
  let ?tx = "[0x5A, 0] :: bytes"
  let ?now = "''12:00:00.000''"
  let ?st = "\<lparr>total_sent = 7, total_errors = 3, err_no_resp = 2, err_mismatch = 1\<rparr>"
  have 1: "classify ?tx [] = NoResponse" by (simp add: classify_def)
  have 2: "classify ?tx [0x5A, 1] = Mismatch" by (simp add: classify_def)
  have 3: "classify ?tx ?tx = Match" by (simp add: classify_def)
  have e: "\<And>s t :: stats. (s = t) =
      (total_sent s = total_sent t \<and> total_errors s = total_errors t \<and>
       err_no_resp s = err_no_resp t \<and> err_mismatch s = err_mismatch t)"
    by auto
  from record_step_counters [of ?tx ?now "[]" ?st None] 1
  have a: "record_V2 ?tx ?now [] ?st =
      \<lparr>total_sent = 8, total_errors = 4, err_no_resp = 3, err_mismatch = 1\<rparr>"
    by (simp add: e)
  from record_step_counters [of ?tx ?now "[0x5A, 1]" ?st None] 2
  have b: "record_V2 ?tx ?now [0x5A, 1] ?st =
      \<lparr>total_sent = 8, total_errors = 4, err_no_resp = 2, err_mismatch = 2\<rparr>"
    by (simp add: e)
  from record_step_counters [of ?tx ?now ?tx ?st None] 3
  have c: "record_V3 ?tx ?now ?tx None ?st =
      \<lparr>total_sent = 8, total_errors = 3, err_no_resp = 2, err_mismatch = 1\<rparr>"
    by (simp add: e)
  from a b c show ?thesis by blast
qed

subsection \<open>The loop\<close>

lemma counters_ok_record_V2: "counters_ok st \<Longrightarrow> counters_ok (record_V2 tx now rx st)"
  by (cases "classify tx rx") (simp_all add: counters_ok_def record_V2_value)

lemma total_sent_record_V2: "total_sent (record_V2 tx now rx st) = total_sent st + 1"
  by (cases "classify tx rx") (simp_all add: record_V2_value)

lemma loop_V2_Cons:
  "fst (loop_V2 tx ((now, rx) # rest) st) = fst (loop_V2 tx rest (record_V2 tx now rx st)) \<and>
   snd (snd (loop_V2 tx ((now, rx) # rest) st)) =
     snd (snd (loop_V2 tx rest (record_V2 tx now rx st)))"
proof -
  obtain st' out exc where b: "loop_body_V2 tx now rx st = (st', out, exc)"
    by (cases "loop_body_V2 tx now rx st") auto
  have "exc = None"
    using loop_body_V2_no_exception [of tx now rx st] by (simp add: b)
  moreover have "record_V2 tx now rx st = st'"
    by (simp add: record_V2_def b)
  ultimately show ?thesis
    by (simp add: b split: prod.splits)
qed

lemma loop_V2_invariant:
  "counters_ok st \<Longrightarrow>
     counters_ok (fst (loop_V2 tx inputs st)) \<and>
     total_sent (fst (loop_V2 tx inputs st)) = total_sent st + int (length inputs) \<and>
     snd (snd (loop_V2 tx inputs st)) = None"
proof (induction inputs arbitrary: st)
  case Nil
  then show ?case by simp
next
  case (Cons a inputs)
  obtain now rx where a: "a = (now, rx)" by (cases a)
  from Cons.IH [OF counters_ok_record_V2 [OF Cons.prems], of tx now rx]
  show ?case
    unfolding a by (simp only: loop_V2_Cons total_sent_record_V2) simp
qed

lemma loop_V3_Cons:
  assumes "0 \<le> total_sent st"
  shows "fst (loop_V3 tx ((now, rx) # rest) (st, file)) =
     fst (loop_V3 tx rest
       (record_V2 tx now rx st,
        append_row (csv_row_V3 tx now (total_sent st + 1) rx (outcome_kind (classify tx rx)))
          file)) \<and>
   snd (snd (loop_V3 tx ((now, rx) # rest) (st, file))) =
     snd (snd (loop_V3 tx rest
       (record_V2 tx now rx st,
        append_row (csv_row_V3 tx now (total_sent st + 1) rx (outcome_kind (classify tx rx)))
          file)))"
proof -
  obtain st' file' out exc where b: "loop_body_V3 tx now rx (st, file) = ((st', file'), out, exc)"
    by (cases "loop_body_V3 tx now rx (st, file)") auto
  have "exc = None"
    using assms loop_body_V3_exception [of tx now rx st "file"] by (simp add: b)
  moreover have "record_V2 tx now rx st = st'"
    using record_V3_value [of tx now rx "file" st] by (simp add: record_V3_def b)
  moreover have
    "append_row (csv_row_V3 tx now (total_sent st + 1) rx (outcome_kind (classify tx rx))) file =
       file'"
    using loop_body_V3_file [of tx now rx st "file"] by (simp add: b)
  ultimately show ?thesis
    by (simp add: b split: prod.splits)
qed

lemma loop_V3_stats:
  "0 \<le> total_sent st \<Longrightarrow>
     fst (fst (loop_V3 tx inputs (st, file))) = fst (loop_V2 tx inputs st) \<and>
     snd (snd (loop_V3 tx inputs (st, file))) = None"
proof (induction inputs arbitrary: st "file")
  case Nil
  then show ?case by simp
next
  case (Cons a inputs)
  obtain now rx where a: "a = (now, rx)" by (cases a)
  have "0 \<le> total_sent (record_V2 tx now rx st)"
    using Cons.prems by (simp add: total_sent_record_V2)
  from Cons.IH [OF this]
  show ?case
    unfolding a by (simp only: loop_V2_Cons loop_V3_Cons [OF Cons.prems])
qed

lemma counters_ok_initial: "counters_ok initial_stats \<and> total_sent initial_stats = 0"
  by (simp add: counters_ok_def initial_stats_def)

text \<open>
  C2. Starting from the all-zero statistics, after each of the first \<open>k\<close> trials of any
  sequence (so after every intermediate trial and after the last one) both scripts have
  \<open>total_sent = k\<close> and \<open>total_errors = err_no_resp + err_mismatch \<le> total_sent\<close>, and no
  exception has ended the loop.
\<close>

theorem stats_invariant:
  "\<forall>k \<le> length inputs.
     total_sent (fst (loop_V2 tx (take k inputs) initial_stats)) = int k \<and>
     total_errors (fst (loop_V2 tx (take k inputs) initial_stats)) =
       err_no_resp (fst (loop_V2 tx (take k inputs) initial_stats)) +
       err_mismatch (fst (loop_V2 tx (take k inputs) initial_stats)) \<and>
     total_errors (fst (loop_V2 tx (take k inputs) initial_stats)) \<le>
       total_sent (fst (loop_V2 tx (take k inputs) initial_stats)) \<and>
     snd (snd (loop_V2 tx (take k inputs) initial_stats)) = None \<and>
     fst (fst (loop_V3 tx (take k inputs) (initial_stats, file))) =
       fst (loop_V2 tx (take k inputs) initial_stats) \<and>
     snd (snd (loop_V3 tx (take k inputs) (initial_stats, file))) = None"
proof (intro allI impI)
  fix k assume k: "k \<le> length inputs"
  have c: "counters_ok initial_stats" and z: "0 \<le> total_sent initial_stats"
    using counters_ok_initial by simp_all
  from loop_V2_invariant [OF c, of tx "take k inputs"] loop_V3_stats [OF z, of tx "take k inputs" "file"] k
  show "total_sent (fst (loop_V2 tx (take k inputs) initial_stats)) = int k \<and>
     total_errors (fst (loop_V2 tx (take k inputs) initial_stats)) =
       err_no_resp (fst (loop_V2 tx (take k inputs) initial_stats)) +
       err_mismatch (fst (loop_V2 tx (take k inputs) initial_stats)) \<and>
     total_errors (fst (loop_V2 tx (take k inputs) initial_stats)) \<le>
       total_sent (fst (loop_V2 tx (take k inputs) initial_stats)) \<and>
     snd (snd (loop_V2 tx (take k inputs) initial_stats)) = None \<and>
     fst (fst (loop_V3 tx (take k inputs) (initial_stats, file))) =
       fst (loop_V2 tx (take k inputs) initial_stats) \<and>
     snd (snd (loop_V3 tx (take k inputs) (initial_stats, file))) = None"
    using counters_ok_initial by (simp add: counters_ok_def)
qed


theorem stats_invariant_witness:
  "(2 :: nat) \<le> length [(''12:00:00.000'', [0x5A :: byte]), (''12:00:00.200'', [])] \<and>
   total_sent (fst (loop_V2 [0x5A]
     (take 2 [(''12:00:00.000'', [0x5A]), (''12:00:00.200'', [])]) initial_stats)) = 2 \<and>
   fst (loop_V2 [0x5A] [(''12:00:00.000'', [0x5A]), (''12:00:00.200'', [])] initial_stats) =
     \<lparr>total_sent = 2, total_errors = 1, err_no_resp = 1, err_mismatch = 0\<rparr> \<and>
   fst (fst (loop_V3 [0x5A] [(''12:00:00.000'', [0x5A]), (''12:00:00.200'', [])]
     (initial_stats, None))) =
     \<lparr>total_sent = 2, total_errors = 1, err_no_resp = 1, err_mismatch = 0\<rparr>"
proof -
  let ?inputs = "[(''12:00:00.000'', [0x5A :: byte]), (''12:00:00.200'', [])]"
  have k: "(2 :: nat) \<le> length ?inputs" by simp
  have t: "take 2 ?inputs = ?inputs" by simp
  from stats_invariant [of ?inputs "[0x5A]" None] k
  have inv: "total_sent (fst (loop_V2 [0x5A] (take 2 ?inputs) initial_stats)) = int 2 \<and>
     fst (fst (loop_V3 [0x5A] (take 2 ?inputs) (initial_stats, None))) =
       fst (loop_V2 [0x5A] (take 2 ?inputs) initial_stats)"
    by blast
  have v: "fst (loop_V2 [0x5A] ?inputs initial_stats) =
      \<lparr>total_sent = 2, total_errors = 1, err_no_resp = 1, err_mismatch = 0\<rparr>"
    by (simp only: loop_V2_Cons loop_V2.simps(1) fst_conv)
       (simp add: record_V2_value classify_def initial_stats_def)
  from inv have "fst (fst (loop_V3 [0x5A] ?inputs (initial_stats, None))) =
       fst (loop_V2 [0x5A] ?inputs initial_stats)"
    unfolding t by blast
  with k inv v show ?thesis by simp
qed

text \<open>
  C10. Take the state either loop has reached from the all-zero statistics after any
  sequence of trials, and run one more iteration on any readings. The statistics at the point
  where the iteration computes the status line have \<open>total_sent \<ge> 1\<close>, since the iteration
  incremented it first: the unguarded division of V3 yields a value, not
  \<^verbatim>\<open>ZeroDivisionError\<close>, and no iteration of V3 ends with an exception; in V2 the guard
  \<^verbatim>\<open>total > 0\<close> is always taken.
\<close>

theorem status_total_positive:
  "1 \<le> total_sent (fst (fst (loop_body_V3 tx now rx (fst (loop_V3 tx inputs (initial_stats, file)))))) \<and>
   pct_error_V3 (fst (fst (loop_body_V3 tx now rx (fst (loop_V3 tx inputs (initial_stats, file)))))) \<noteq>
     Inl ZeroDivisionError \<and>
   snd (snd (loop_body_V3 tx now rx (fst (loop_V3 tx inputs (initial_stats, file))))) = None \<and>
   snd (snd (loop_V3 tx inputs (initial_stats, file))) = None \<and>
   1 \<le> total_sent (fst (loop_body_V2 tx now rx (fst (loop_V2 tx inputs initial_stats))))"
proof -
  obtain st file' where s: "fst (loop_V3 tx inputs (initial_stats, file)) = (st, file')"
    by (cases "fst (loop_V3 tx inputs (initial_stats, file))") auto
  have c: "counters_ok initial_stats" and z: "0 \<le> total_sent initial_stats"
    using counters_ok_initial by simp_all
  have st: "st = fst (loop_V2 tx inputs initial_stats)"
    and ne: "snd (snd (loop_V3 tx inputs (initial_stats, file))) = None"
    using loop_V3_stats [OF z, of tx inputs "file"] by (simp_all add: s)
  have ts: "total_sent st = int (length inputs)"
    using loop_V2_invariant [OF c, of tx inputs] counters_ok_initial by (simp add: st)
  have r: "fst (fst (loop_body_V3 tx now rx (st, file'))) = record_V2 tx now rx st"
    using record_V3_value [of tx now rx file' st] by (simp add: record_V3_def)
  have p: "total_sent (record_V2 tx now rx st) = int (length inputs) + 1"
    by (simp add: total_sent_record_V2 ts)
  have e: "snd (snd (loop_body_V3 tx now rx (st, file'))) = None"
    by (simp add: loop_body_V3_exception ts)
  have q: "pct_error_V3 (record_V2 tx now rx st) \<noteq> Inl ZeroDivisionError"
    by (simp add: pct_error_V3_value p)
  have v2: "fst (loop_body_V2 tx now rx st) = record_V2 tx now rx st"
    by (simp add: record_V2_def)
  show ?thesis
    unfolding s r using p e q ne by (simp add: st [symmetric] v2)
qed

theorem status_total_positive_witness:
  "total_sent (fst (fst (loop_body_V3 [0x5A] ''2026-01-01 12:00:00.000'' []
     (fst (loop_V3 [0x5A] [] (initial_stats, None)))))) = 1 \<and>
   pct_error_V3 (fst (fst (loop_body_V3 [0x5A] ''2026-01-01 12:00:00.000'' []
     (fst (loop_V3 [0x5A] [] (initial_stats, None)))))) = Inr 100"
proof -
  let ?s = "fst (fst (loop_body_V3 [0x5A] ''2026-01-01 12:00:00.000'' []
     (fst (loop_V3 [0x5A] [] (initial_stats, None)))))"
  have a: "?s = \<lparr>total_sent = 1, total_errors = 1, err_no_resp = 1, err_mismatch = 0\<rparr>"
    using record_V3_value [of "[0x5A]" "''2026-01-01 12:00:00.000''" "[]" None initial_stats]
    by (simp add: record_V3_def record_V2_value classify_def initial_stats_def)
  from status_total_positive [of "[0x5A]" "''2026-01-01 12:00:00.000''" "[]" "[]" None]
  have "pct_error_V3 ?s \<noteq> Inl ZeroDivisionError" by blast
  then have "pct_error_V3 ?s = Inr 100"
    unfolding a by (simp add: pct_error_V3_value)
  with a show ?thesis by simp
qed




subsection \<open>The scenario of five trials\<close>

lemma scenario_classes:
  "classify scenario_payload scenario_payload = Match \<and>
   classify scenario_payload [] = NoResponse \<and>
   classify scenario_payload scenario_flipped = Mismatch"
  by (simp add: classify_def scenario_payload_def scenario_flipped_def)

lemma scenario_stats_V2:
  "fst (loop_V2 scenario_payload (scenario_inputs t1 t2 t3 t4 t5) initial_stats) =
     \<lparr>total_sent = 5, total_errors = 2, err_no_resp = 1, err_mismatch = 1\<rparr>"
  unfolding scenario_inputs_def
  by (simp only: loop_V2_Cons loop_V2.simps(1) fst_conv)
     (simp add: record_V2_value scenario_classes initial_stats_def)

lemma scenario_parse:
  "hex_to_bytes hex_data_V2 = Inr scenario_payload \<and>
   hex_to_bytes hex_data_V3 = Inr scenario_payload"
  by code_simp

lemma scenario_last_V2:
  "last (fst (snd (loop_V2 scenario_payload (scenario_inputs t1 t2 t3 t4 t5) initial_stats))) =
     Status_V2 5 40 2 20 20"
  by (simp add: scenario_inputs_def loop_body_V2_def Let_def analyze_V2_def
      percentages_V2_value initial_stats_def scenario_payload_def scenario_flipped_def)

lemma scenario_V3:
  "fst (fst (loop_V3 scenario_payload (scenario_inputs t1 t2 t3 t4 t5) (initial_stats, file))) =
     \<lparr>total_sent = 5, total_errors = 2, err_no_resp = 1, err_mismatch = 1\<rparr> \<and>
   last (fst (snd (loop_V3 scenario_payload (scenario_inputs t1 t2 t3 t4 t5)
     (initial_stats, file)))) = Status_V3 5 40 2 1 1"
  by (simp add: scenario_inputs_def loop_body_V3_def Let_def analyze_V3_def
      pct_error_V3_value initial_stats_def scenario_payload_def scenario_flipped_def)


lemma main_V2_stats:
  "hex_to_bytes hex_data = Inr tx \<Longrightarrow>
   fst (main_V2 port_name hex_data inputs) = fst (loop_V2 tx inputs initial_stats)"
  by (simp add: main_V2_def Let_def split: prod.splits option.splits)

lemma main_V3_state:
  "hex_to_bytes hex_data = Inr tx \<Longrightarrow>
   fst (main_V3 hex_data inputs file0) = fst (loop_V3 tx inputs (initial_stats, init_csv file0))"
  by (simp add: main_V3_def Let_def split: prod.splits option.splits)

text \<open>
  C5. Both scripts parse their \<^verbatim>\<open>hex_data\<close> to the ten bytes
  \<^verbatim>\<open>5A 00 00 00 00 00 F6 96 00 00\<close>. Run on the five readings of the scenario (the payload
  three times, nothing, the payload with \<open>01\<close> as second byte), each ends with
  \<open>total_sent = 5\<close>, \<open>total_errors = 2\<close>, \<open>err_no_resp = 1\<close>, \<open>err_mismatch = 1\<close>, and the last
  status line shows an error percentage of 40.
\<close>

theorem five_trial_scenario:
  "hex_to_bytes hex_data_V2 = Inr scenario_payload \<and>
   hex_to_bytes hex_data_V3 = Inr scenario_payload \<and>
   length scenario_payload = 10 \<and>
   fst (main_V2 port_name hex_data_V2 (scenario_inputs t1 t2 t3 t4 t5)) =
     \<lparr>total_sent = 5, total_errors = 2, err_no_resp = 1, err_mismatch = 1\<rparr> \<and>
   fst (fst (main_V3 hex_data_V3 (scenario_inputs t1 t2 t3 t4 t5) file)) =
     \<lparr>total_sent = 5, total_errors = 2, err_no_resp = 1, err_mismatch = 1\<rparr> \<and>
   percentages_V2 \<lparr>total_sent = 5, total_errors = 2, err_no_resp = 1, err_mismatch = 1\<rparr> =
     Inr \<lparr>pct_error = 40, pct_no_resp = 20, pct_mismatch = 20\<rparr> \<and>
   pct_error_V3 \<lparr>total_sent = 5, total_errors = 2, err_no_resp = 1, err_mismatch = 1\<rparr> =
     Inr 40 \<and>
   last (fst (snd (loop_V2 scenario_payload (scenario_inputs t1 t2 t3 t4 t5) initial_stats))) =
     Status_V2 5 40 2 20 20 \<and>
   last (fst (snd (loop_V3 scenario_payload (scenario_inputs t1 t2 t3 t4 t5)
     (initial_stats, init_csv file)))) = Status_V3 5 40 2 1 1"
proof -
  have p2: "hex_to_bytes hex_data_V2 = Inr scenario_payload"
    and p3: "hex_to_bytes hex_data_V3 = Inr scenario_payload"
    using scenario_parse by blast+
  have n: "length scenario_payload = 10" by (simp add: scenario_payload_def)
  have m2: "fst (main_V2 port_name hex_data_V2 (scenario_inputs t1 t2 t3 t4 t5)) =
     \<lparr>total_sent = 5, total_errors = 2, err_no_resp = 1, err_mismatch = 1\<rparr>"
    by (simp only: main_V2_stats [OF p2] scenario_stats_V2)
  have m3: "fst (fst (main_V3 hex_data_V3 (scenario_inputs t1 t2 t3 t4 t5) file)) =
     \<lparr>total_sent = 5, total_errors = 2, err_no_resp = 1, err_mismatch = 1\<rparr>"
    by (simp only: main_V3_state [OF p3] scenario_V3)
  have q2: "percentages_V2 \<lparr>total_sent = 5, total_errors = 2, err_no_resp = 1, err_mismatch = 1\<rparr> =
     Inr \<lparr>pct_error = 40, pct_no_resp = 20, pct_mismatch = 20\<rparr>"
    by (simp add: percentages_V2_value)
  have q3: "pct_error_V3 \<lparr>total_sent = 5, total_errors = 2, err_no_resp = 1, err_mismatch = 1\<rparr> =
     Inr 40"
    by (simp add: pct_error_V3_value)
  from p2 p3 n m2 m3 q2 q3 scenario_last_V2 [of t1 t2 t3 t4 t5]
    scenario_V3 [of t1 t2 t3 t4 t5 "init_csv file"]
  show ?thesis by blast
qed

theorem five_trial_scenario_witness:
  "fst (main_V2 ''COM17'' hex_data_V2
     (scenario_inputs ''12:00:00.100'' ''12:00:00.200'' ''12:00:00.300'' ''12:00:00.400''
        ''12:00:00.500'')) =
     \<lparr>total_sent = 5, total_errors = 2, err_no_resp = 1, err_mismatch = 1\<rparr>"
  using five_trial_scenario [of "''COM17''" "''12:00:00.100''" "''12:00:00.200''"
      "''12:00:00.300''" "''12:00:00.400''" "''12:00:00.500''" None]
  by blast

subsection \<open>Error lines\<close>

lemma printed_loop_body_V2:
  "printed (fst (snd (loop_body_V2 tx now rx st))) =
     (if classify tx rx = Match then []
      else [error_line_V2 now (total_sent st + 1) (outcome_kind (classify tx rx))
              (if classify tx rx = Mismatch then ''Rx: '' @ hex_upper rx else ''Buffer empty'')])"
  by (simp add: loop_body_V2_def Let_def analyze_V2_def percentages_V2_value classify_def
      outcome_kind_def)

lemma printed_loop_body_V3:
  "printed (fst (snd (loop_body_V3 tx now rx (st, file)))) =
     (if classify tx rx = Match then []
      else [error_line_V3 now (total_sent st + 1) (outcome_kind (classify tx rx))])"
  by (simp add: loop_body_V3_def Let_def analyze_V3_def pct_error_V3_value classify_def
      outcome_kind_def)

lemma sublist_ljust: "sublist s (ljust w s)"
  unfolding ljust_def by (rule sublist_append_rightI)

lemma error_line_V2_parts:
  "sublist timestamp (error_line_V2 timestamp n kind detail) \<and>
   sublist (str_int n) (error_line_V2 timestamp n kind detail) \<and>
   sublist kind (error_line_V2 timestamp n kind detail) \<and>
   sublist detail (error_line_V2 timestamp n kind detail)"
proof -
  let ?l = "error_line_V2 timestamp n kind detail"
  have 1: "?l = ''\<newline>  ['' @ timestamp @
      (''] | #'' @ ljust 4 (str_int n) @ '' | '' @ ljust 15 kind @ '' | '' @ detail)"
    by (simp add: error_line_V2_def)
  have 2: "?l = (''\<newline>  ['' @ timestamp @ ''] | #'') @ str_int n @
      (replicate (4 - length (str_int n)) CHR '' '' @ '' | '' @ ljust 15 kind @ '' | '' @ detail)"
    by (simp add: error_line_V2_def ljust_def)
  have 3: "?l = (''\<newline>  ['' @ timestamp @ ''] | #'' @ ljust 4 (str_int n) @ '' | '') @ kind @
      (replicate (15 - length kind) CHR '' '' @ '' | '' @ detail)"
    by (simp add: error_line_V2_def ljust_def)
  have 4: "?l = (''\<newline>  ['' @ timestamp @ ''] | #'' @ ljust 4 (str_int n) @ '' | '' @
      ljust 15 kind @ '' | '') @ detail @ []"
    by (simp add: error_line_V2_def)
  show ?thesis
    by (intro conjI, subst 1, rule sublist_appendI, subst 2, rule sublist_appendI,
        subst 3, rule sublist_appendI, subst 4, rule sublist_appendI)
qed

lemma error_line_V3_parts:
  "sublist timestamp (error_line_V3 timestamp n kind) \<and>
   sublist (str_int n) (error_line_V3 timestamp n kind) \<and>
   sublist kind (error_line_V3 timestamp n kind)"
proof -
  let ?l = "error_line_V3 timestamp n kind"
  have 1: "?l = ''\<newline>  ['' @ timestamp @ (''] | #'' @ ljust 4 (str_int n) @ '' | '' @ kind)"
    by (simp add: error_line_V3_def)
  have 2: "?l = (''\<newline>  ['' @ timestamp @ ''] | #'') @ str_int n @
      (replicate (4 - length (str_int n)) CHR '' '' @ '' | '' @ kind)"
    by (simp add: error_line_V3_def ljust_def)
  have 3: "?l = (''\<newline>  ['' @ timestamp @ ''] | #'' @ ljust 4 (str_int n) @ '' | '') @ kind @ []"
    by (simp add: error_line_V3_def)
  show ?thesis
    by (intro conjI, subst 1, rule sublist_appendI, subst 2, rule sublist_appendI,
        subst 3, rule sublist_appendI)
qed

lemma sublist_rx_detail: "sublist (hex_upper rx) (''Rx: '' @ hex_upper rx)"
  by (rule sublist_append_leftI)


lemma loop_body_V3_row:
  "snd (fst (loop_body_V3 tx now rx (st, Some rows))) =
     Some (rows @ [[now, str_int (total_sent st + 1), hex_upper tx,
                    if rx \<noteq> [] then hex_upper rx else [], outcome_kind (classify tx rx)]])"
  by (simp add: loop_body_V3_file append_row_def csv_row_V3_def)

text \<open>
  C9, as amended. An iteration of either script prints no line for a match and exactly one
  line otherwise. That line contains the clock reading, the sequence number (the value of
  \<open>total_sent\<close> after its increment) and the kind of the error. For a mismatch the line of
  V2 also contains the received bytes in upper-case hexadecimal; V3 does not put them on the
  line but in the field \<open>rx_hex\<close> of the row it appends to the file.
\<close>

theorem error_line_emitted:
  "printed (fst (snd (loop_body_V2 tx now rx st))) =
     (if classify tx rx = Match then []
      else [error_line_V2 now (total_sent st + 1) (outcome_kind (classify tx rx))
              (if classify tx rx = Mismatch then ''Rx: '' @ hex_upper rx else ''Buffer empty'')]) \<and>
   printed (fst (snd (loop_body_V3 tx now rx (st, file)))) =
     (if classify tx rx = Match then []
      else [error_line_V3 now (total_sent st + 1) (outcome_kind (classify tx rx))]) \<and>
   sublist now (error_line_V2 now n kind detail) \<and>
   sublist (str_int n) (error_line_V2 now n kind detail) \<and>
   sublist kind (error_line_V2 now n kind detail) \<and>
   sublist (hex_upper rx) (error_line_V2 now n kind (''Rx: '' @ hex_upper rx)) \<and>
   sublist now (error_line_V3 now n kind) \<and>
   sublist (str_int n) (error_line_V3 now n kind) \<and>
   sublist kind (error_line_V3 now n kind) \<and>
   (classify tx rx = Mismatch \<longrightarrow>
      snd (fst (loop_body_V3 tx now rx (st, Some rows))) =
        Some (rows @ [[now, str_int (total_sent st + 1), hex_upper tx, hex_upper rx,
                       ''DATA MISMATCH'']]))"
proof -
  have d: "sublist (hex_upper rx) (error_line_V2 now n kind (''Rx: '' @ hex_upper rx))"
    using error_line_V2_parts [of now n kind "''Rx: '' @ hex_upper rx"] sublist_rx_detail [of rx]
    by (blast intro: sublist_order.order_trans)
  have r: "classify tx rx = Mismatch \<longrightarrow>
      snd (fst (loop_body_V3 tx now rx (st, Some rows))) =
        Some (rows @ [[now, str_int (total_sent st + 1), hex_upper tx, hex_upper rx,
                       ''DATA MISMATCH'']])"
    by (simp add: loop_body_V3_row classify_def outcome_kind_def split: if_splits)
  from printed_loop_body_V2 [of tx now rx st] printed_loop_body_V3 [of tx now rx st "file"]
    error_line_V2_parts [of now n kind detail] error_line_V3_parts [of now n kind] d r
  show ?thesis by blast
qed

theorem error_line_emitted_witness:
  "classify scenario_payload scenario_flipped = Mismatch \<and>
   printed (fst (snd (loop_body_V2 scenario_payload ''12:00:00.500'' scenario_flipped
     \<lparr>total_sent = 4, total_errors = 1, err_no_resp = 1, err_mismatch = 0\<rparr>))) =
     [''\<newline>  [12:00:00.500] | #5    | DATA MISMATCH   | Rx: 5A0100000000F6960000''] \<and>
   snd (fst (loop_body_V3 scenario_payload ''2026-01-01 12:00:00.500'' scenario_flipped
     (\<lparr>total_sent = 4, total_errors = 1, err_no_resp = 1, err_mismatch = 0\<rparr>,
      Some [csv_header]))) =
     Some [csv_header,
           [''2026-01-01 12:00:00.500'', ''5'', ''5A0000000000F6960000'',
            ''5A0100000000F6960000'', ''DATA MISMATCH'']]"
proof -
  let ?st = "\<lparr>total_sent = 4, total_errors = 1, err_no_resp = 1, err_mismatch = 0\<rparr>"
  have c: "classify scenario_payload scenario_flipped = Mismatch"
    using scenario_classes by blast
  have l: "error_line_V2 ''12:00:00.500'' 5 ''DATA MISMATCH'' (''Rx: '' @ hex_upper scenario_flipped) =
      ''\<newline>  [12:00:00.500] | #5    | DATA MISMATCH   | Rx: 5A0100000000F6960000''"
    by code_simp
  have h: "hex_upper scenario_payload = ''5A0000000000F6960000'' \<and>
           hex_upper scenario_flipped = ''5A0100000000F6960000'' \<and> str_int 5 = ''5''"
    by code_simp
  from error_line_emitted [of scenario_payload "''12:00:00.500''" scenario_flipped ?st]
  have "printed (fst (snd (loop_body_V2 scenario_payload ''12:00:00.500'' scenario_flipped ?st))) =
      [error_line_V2 ''12:00:00.500'' 5 ''DATA MISMATCH'' (''Rx: '' @ hex_upper scenario_flipped)]"
    by (simp add: c outcome_kind_def)
  moreover
  from error_line_emitted [of scenario_payload "''2026-01-01 12:00:00.500''" scenario_flipped ?st
      _ _ _ _ "[csv_header]"] c
  have "snd (fst (loop_body_V3 scenario_payload ''2026-01-01 12:00:00.500'' scenario_flipped
      (?st, Some [csv_header]))) =
     Some ([csv_header] @ [[''2026-01-01 12:00:00.500'', str_int (total_sent ?st + 1),
        hex_upper scenario_payload, hex_upper scenario_flipped, ''DATA MISMATCH'']])"
    by blast
  ultimately show ?thesis using c l h by simp
qed

text \<open>
  C9 as stated fails on V3: the line it prints for a mismatch ends with the kind of the
  error and does not contain the received bytes.
\<close>

theorem error_line_V3_counterexample:
  "classify scenario_payload scenario_flipped = Mismatch \<and>
   printed (fst (snd (loop_body_V3 scenario_payload ''2026-01-01 12:00:00.500'' scenario_flipped
     (initial_stats, None)))) =
     [''\<newline>  [2026-01-01 12:00:00.500] | #1    | DATA MISMATCH''] \<and>
   \<not> sublist (hex_upper scenario_flipped)
     ''\<newline>  [2026-01-01 12:00:00.500] | #1    | DATA MISMATCH''"
proof -
  have c: "classify scenario_payload scenario_flipped = Mismatch"
    using scenario_classes by blast
  have l: "error_line_V3 ''2026-01-01 12:00:00.500'' 1 ''DATA MISMATCH'' =
      ''\<newline>  [2026-01-01 12:00:00.500] | #1    | DATA MISMATCH''"
    by code_simp
  have n: "\<not> sublist (hex_upper scenario_flipped)
     ''\<newline>  [2026-01-01 12:00:00.500] | #1    | DATA MISMATCH''"
    by code_simp
  have "printed (fst (snd (loop_body_V3 scenario_payload ''2026-01-01 12:00:00.500''
      scenario_flipped (initial_stats, None)))) =
      [error_line_V3 ''2026-01-01 12:00:00.500'' 1 ''DATA MISMATCH'']"
    by (simp add: printed_loop_body_V3 c outcome_kind_def initial_stats_def)
  with c l n show ?thesis by simp
qed

subsection \<open>The log file\<close>

lemma nat_digits_last: "nat_digits n \<noteq> [] \<and> last (nat_digits n) = char_of (48 + n mod 10)"
  by (subst (1 2) nat_digits.simps) simp

lemma str_int_not_header: "str_int i \<noteq> ''seq_no''"
proof
  assume a: "str_int i = ''seq_no''"
  have "last (str_int i) = char_of (48 + nat \<bar>i\<bar> mod 10)"
    using nat_digits_last [of "nat (- i)"] nat_digits_last [of "nat i"]
    by (auto simp: str_int_def)
  with a have "char_of (48 + nat \<bar>i\<bar> mod 10) = CHR ''o''" by simp
  then have "of_char (char_of (48 + nat \<bar>i\<bar> mod 10)) = (of_char CHR ''o'' :: nat)"
    by (simp only:)
  moreover have "48 + nat \<bar>i\<bar> mod 10 < 58" by simp
  ultimately show False by simp
qed

lemma csv_row_V3_not_header: "csv_row_V3 tx now seq_no rx kind \<noteq> csv_header"
  using str_int_not_header [of seq_no] by (simp add: csv_row_V3_def csv_header_def Let_def)

lemma rows_of_run_no_header: "csv_header \<notin> set (rows_of_run tx seq_no inputs)"
proof (induction inputs arbitrary: seq_no)
  case Nil
  show ?case by simp
next
  case (Cons a inputs)
  obtain now rx where a: "a = (now, rx)" by (cases a)
  show ?case
    using Cons.IH [of "seq_no + 1"]
      csv_row_V3_not_header [of tx now seq_no rx "outcome_kind (classify tx rx)"]
    by (auto simp: a)
qed

lemma length_rows_of_run: "length (rows_of_run tx seq_no inputs) = length inputs"
  by (induction inputs arbitrary: seq_no) auto

lemma loop_V3_file:
  "0 \<le> total_sent st \<Longrightarrow>
   snd (fst (loop_V3 tx inputs (st, Some rows))) =
     Some (rows @ rows_of_run tx (total_sent st + 1) inputs)"
proof (induction inputs arbitrary: st rows)
  case Nil
  show ?case by simp
next
  case (Cons a inputs)
  obtain now rx where a: "a = (now, rx)" by (cases a)
  have p: "0 \<le> total_sent (record_V2 tx now rx st)"
    using Cons.prems by (simp add: total_sent_record_V2)
  show ?case
    unfolding a
    by (simp only: loop_V3_Cons [OF Cons.prems] append_row_def option.case Cons.IH [OF p]
        total_sent_record_V2) simp
qed

lemma main_V3_file:
  assumes "hex_to_bytes hex_data = Inr tx"
  shows "snd (fst (main_V3 hex_data inputs None)) = Some (csv_header # rows_of_run tx 1 inputs)"
    and "snd (fst (main_V3 hex_data inputs (Some rows))) = Some (rows @ rows_of_run tx 1 inputs)"
proof -
  have z: "0 \<le> total_sent initial_stats" by (simp add: initial_stats_def)
  show "snd (fst (main_V3 hex_data inputs None)) = Some (csv_header # rows_of_run tx 1 inputs)"
    using loop_V3_file [OF z, of tx inputs "[csv_header]"]
    by (simp add: main_V3_state [OF assms] init_csv_def initial_stats_def)
  show "snd (fst (main_V3 hex_data inputs (Some rows))) = Some (rows @ rows_of_run tx 1 inputs)"
    using loop_V3_file [OF z, of tx inputs rows]
    by (simp add: main_V3_state [OF assms] init_csv_def initial_stats_def)
qed

lemma runs_V3_existing:
  assumes "hex_to_bytes hex_data = Inr tx"
  shows "runs_V3 hex_data runs (Some rows) = Some (rows @ concat (map (rows_of_run tx 1) runs))"
proof (induction runs arbitrary: rows)
  case Nil
  show ?case by simp
next
  case (Cons inputs runs)
  show ?case
    by (simp add: main_V3_file(2) [OF assms] Cons.IH)
qed

text \<open>
  C8. Run V3 any number of times, at least once, on a file that does not exist at first,
  each run with any number of trials. The file then holds the header row once, at the top,
  followed by one row per trial of all the runs in the order of the trials, and none of
  these rows is the header. \<^verbatim>\<open>init_csv\<close> writes the header when the file is missing and
  leaves a file that exists as it is.
\<close>

theorem log_one_header:
  assumes "hex_to_bytes hex_data = Inr tx" and "runs \<noteq> []"
  shows "runs_V3 hex_data runs None =
           Some (csv_header # concat (map (rows_of_run tx 1) runs)) \<and>
         length (concat (map (rows_of_run tx 1) runs)) = sum_list (map length runs) \<and>
         csv_header \<notin> set (concat (map (rows_of_run tx 1) runs)) \<and>
         init_csv None = Some [csv_header] \<and>
         init_csv (Some rows) = Some rows"
proof -
  obtain inputs later where r: "runs = inputs # later"
    using assms(2) by (cases runs) auto
  have 1: "runs_V3 hex_data runs None =
           Some (csv_header # concat (map (rows_of_run tx 1) runs))"
    by (simp add: r main_V3_file(1) [OF assms(1)] runs_V3_existing [OF assms(1)])
  have 2: "length (concat (map (rows_of_run tx 1) runs)) = sum_list (map length runs)"
    by (simp add: length_concat comp_def length_rows_of_run)
  have 3: "csv_header \<notin> set (concat (map (rows_of_run tx 1) runs))"
    using rows_of_run_no_header [of tx 1] by auto
  have 4: "init_csv None = Some [csv_header] \<and> init_csv (Some rows) = Some rows"
    by (simp add: init_csv_def)
  from 1 2 3 4 show ?thesis by blast
qed

theorem log_one_header_witness:
  "hex_to_bytes hex_data_V3 = Inr scenario_payload \<and>
   [[(''2026-01-01 12:00:00.100'', scenario_payload)],
    [(''2026-01-02 08:00:00.000'', []), (''2026-01-02 08:00:00.200'', scenario_payload)]] \<noteq> [] \<and>
   runs_V3 hex_data_V3
     [[(''2026-01-01 12:00:00.100'', scenario_payload)],
      [(''2026-01-02 08:00:00.000'', []), (''2026-01-02 08:00:00.200'', scenario_payload)]]
     None =
     Some [csv_header,
           [''2026-01-01 12:00:00.100'', ''1'', ''5A0000000000F6960000'',
            ''5A0000000000F6960000'', ''''],
           [''2026-01-02 08:00:00.000'', ''1'', ''5A0000000000F6960000'', '''', ''NO RESPONSE''],
           [''2026-01-02 08:00:00.200'', ''2'', ''5A0000000000F6960000'',
            ''5A0000000000F6960000'', '''']]"
proof -
  let ?runs = "[[(''2026-01-01 12:00:00.100'', scenario_payload)],
      [(''2026-01-02 08:00:00.000'', []), (''2026-01-02 08:00:00.200'', scenario_payload)]]"
  have p: "hex_to_bytes hex_data_V3 = Inr scenario_payload"
    using scenario_parse by blast
  have n: "?runs \<noteq> []" by simp
  have h: "hex_upper scenario_payload = ''5A0000000000F6960000'' \<and> str_int 1 = ''1'' \<and>
           str_int 2 = ''2''"
    by code_simp
  have ne: "scenario_payload \<noteq> []" by (simp add: scenario_payload_def)
  have rows: "concat (map (rows_of_run scenario_payload 1) ?runs) =
      [[''2026-01-01 12:00:00.100'', ''1'', ''5A0000000000F6960000'',
        ''5A0000000000F6960000'', ''''],
       [''2026-01-02 08:00:00.000'', ''1'', ''5A0000000000F6960000'', '''', ''NO RESPONSE''],
       [''2026-01-02 08:00:00.200'', ''2'', ''5A0000000000F6960000'',
        ''5A0000000000F6960000'', '''']]"
    using h scenario_classes ne by (simp add: csv_row_V3_def outcome_kind_def)
  have "runs_V3 hex_data_V3 ?runs None =
      Some (csv_header # concat (map (rows_of_run scenario_payload 1) ?runs))"
    using log_one_header [OF p n] by blast
  with p n show ?thesis
    by (simp only: rows) simp
qed

subsection \<open>When parsing fails\<close>

lemma groups_head:
  "\<not> Py_ISSPACE c \<Longrightarrow> \<exists>g gs. groups (c # cs) = (c # g) # gs"
  by (simp split: list.splits)

lemma group_ok_pair: "group_ok (c # d # g) = (is_hexdigit c \<and> is_hexdigit d \<and> group_ok g)"
  by (auto simp: group_ok_def)

lemma group_ok_Nil: "group_ok []"
  by (simp add: group_ok_def)

lemma group_ok_single: "\<not> group_ok [c]"
  by (simp add: group_ok_def)

lemma group_ok_head: "group_ok (c # g) \<Longrightarrow> is_hexdigit c"
  by (simp add: group_ok_def)

lemma groups_pair:
  assumes "\<not> Py_ISSPACE c" and "\<not> Py_ISSPACE d"
  shows "list_all group_ok (groups (c # d # ds)) =
           (is_hexdigit c \<and> is_hexdigit d \<and> list_all group_ok (groups ds))"
proof (cases "ds = [] \<or> Py_ISSPACE (hd ds)")
  case True
  then have "groups (c # d # ds) = [c, d] # groups ds"
    using assms by auto
  then show ?thesis
    using group_ok_pair [of c d "[]"] by (simp add: group_ok_Nil)
next
  case False
  then obtain e es where ds: "ds = e # es" and e: "\<not> Py_ISSPACE e"
    by (cases ds) auto
  from groups_head [OF e, of es] obtain g gs where g: "groups (e # es) = (e # g) # gs"
    by blast
  have "groups (d # ds) = (d # e # g) # gs"
    using assms(2) e g unfolding ds by (simp del: groups.simps add: groups.simps(2) [of d])
  then have "groups (c # d # ds) = (c # d # e # g) # gs"
    using assms(1,2) by (simp del: groups.simps add: groups.simps(2) [of c])
  then show ?thesis
    by (simp add: ds g group_ok_pair del: groups.simps)
qed

lemma fromhex_ok_iff: "(\<exists>bs. fromhex s = Inr bs) = list_all group_ok (groups s)"
proof (induction s rule: fromhex.induct)
  case 1
  show ?case by simp
next
  case (2 c cs)
  show ?case
  proof (cases "Py_ISSPACE c")
    case True
    then show ?thesis using "2.IH"(1) by simp
  next
    case sc: False
    show ?thesis
    proof (cases "digit_value c < 16")
      case False
      then have "fromhex (c # cs) = Inl ValueError" using sc by simp
      moreover have "\<not> list_all group_ok (groups (c # cs))"
        using groups_head [OF sc, of cs] False group_ok_head [of c]
        by (auto simp: is_hexdigit_def simp del: groups.simps)
      ultimately show ?thesis by simp
    next
      case hc: True
      show ?thesis
      proof (cases cs)
        case Nil
        then show ?thesis using sc hc by (simp add: group_ok_single)
      next
        case (Cons d ds)
        show ?thesis
        proof (cases "digit_value d < 16")
          case False
          then have f: "fromhex (c # cs) = Inl ValueError" using sc hc Cons by simp
          have "\<not> list_all group_ok (groups (c # d # ds))"
          proof (cases "Py_ISSPACE d")
            case True
            then have "groups (c # d # ds) = [c] # groups (d # ds)"
              using sc by (simp del: groups.simps add: groups.simps(2) [of c])
            then show ?thesis by (simp add: group_ok_single del: groups.simps)
          next
            case sd: False
            show ?thesis
              using groups_pair [OF sc sd, of ds] False by (simp add: is_hexdigit_def)
          qed
          with f show ?thesis by (simp add: Cons del: groups.simps)
        next
          case hd: True
          have sd: "\<not> Py_ISSPACE d" using hd by (rule digit_value_not_space)
          have "(\<exists>bs. fromhex (c # cs) = Inr bs) = (\<exists>bs. fromhex ds = Inr bs)"
            unfolding Cons fromhex_pair [OF hc hd] by (cases "fromhex ds") auto
          also have "\<dots> = list_all group_ok (groups ds)"
            using "2.IH"(2) [OF sc _ Cons] hc hd by simp
          also have "\<dots> = list_all group_ok (groups (c # cs))"
            unfolding Cons groups_pair [OF sc sd] using hc hd by (simp add: is_hexdigit_def)
          finally show ?thesis .
        qed
      qed
    qed
  qed
qed

lemma fromhex_error: "fromhex s = Inl e \<Longrightarrow> e = ValueError"
proof (induction s rule: fromhex.induct)
  case 1
  then show ?case by simp
next
  case (2 c cs)
  show ?case
  proof (cases "Py_ISSPACE c")
    case True
    with 2 show ?thesis by simp
  next
    case False
    show ?thesis
    proof (cases "digit_value c < 16 \<and> (\<exists>d ds. cs = d # ds \<and> digit_value d < 16)")
      case True
      then obtain d ds where cs: "cs = d # ds" and c: "digit_value c < 16"
        and d: "digit_value d < 16" by blast
      from "2.prems" have "fromhex ds = Inl e"
        unfolding cs fromhex_pair [OF c d] by (cases "fromhex ds") auto
      then show ?thesis
        using "2.IH"(2) [OF False _ cs] c d by simp
    next
      case False
      with "2.prems" \<open>\<not> Py_ISSPACE c\<close> show ?thesis
        by (auto split: if_splits list.splits)
    qed
  qed
qed

lemma fromhex_fails_iff: "(fromhex s = Inl ValueError) = (\<not> list_all group_ok (groups s))"
proof -
  have "(fromhex s = Inl ValueError) = (\<not> (\<exists>bs. fromhex s = Inr bs))"
    using fromhex_error [of s] by (cases "fromhex s") auto
  then show ?thesis by (simp only: fromhex_ok_iff)
qed

lemma fromhex_digits:
  "fromhex s = Inr bs \<Longrightarrow>
     length (filter is_hexdigit s) = 2 * length bs \<and> \<not> has_foreign_char s"
proof (induction s arbitrary: bs rule: fromhex.induct)
  case 1
  then show ?case by (simp add: has_foreign_char_def)
next
  case (2 c cs)
  show ?case
  proof (cases "Py_ISSPACE c")
    case True
    then have "\<not> is_hexdigit c"
      using digit_value_not_space [of c] by (auto simp: is_hexdigit_def)
    with True 2 show ?thesis by (simp add: has_foreign_char_def)
  next
    case False
    with "2.prems" obtain d ds bs' where
      cs: "cs = d # ds" and c: "digit_value c < 16" and d: "digit_value d < 16"
      and r: "fromhex ds = Inr bs'"
      and bs: "bs = join_nibbles (digit_value c) (digit_value d) # bs'"
      by (auto split: if_splits list.splits sum.splits)
    have ih: "length (filter is_hexdigit ds) = 2 * length bs' \<and> \<not> has_foreign_char ds"
      using "2.IH"(2) [OF False _ cs _ r] c d by simp
    have hc: "is_hexdigit c" and hd: "is_hexdigit d"
      using c d by (simp_all add: is_hexdigit_def)
    from ih show ?thesis
      by (simp add: cs bs hc hd has_foreign_char_def)
  qed
qed

lemma fromhex_fails_if:
  assumes "odd_digit_count s \<or> has_foreign_char s"
  shows "fromhex s = Inl ValueError"
proof (cases "fromhex s")
  case (Inl e)
  then show ?thesis using fromhex_error [of s e] by simp
next
  case (Inr bs)
  from fromhex_digits [OF Inr] assms show ?thesis
    by (simp add: odd_digit_count_def)
qed


lemma main_V2_parse_failure:
  "hex_to_bytes hex_data = Inl e \<Longrightarrow>
   main_V2 port_name hex_data inputs =
     (initial_stats,
      Port_Open # banner_V2 port_name hex_data @ [Port_Close, Print ''Port closed.''],
      Some e)"
  by (simp add: main_V2_def Let_def)

lemma main_V3_parse_failure:
  "hex_to_bytes hex_data = Inl e \<Longrightarrow>
   main_V3 hex_data inputs file0 = ((initial_stats, init_csv file0), [], Some e)"
  by (simp add: main_V3_def Let_def)

text \<open>
  C7, as amended. \<^verbatim>\<open>hex_to_bytes\<close> fails, with \<^verbatim>\<open>ValueError\<close>, exactly when some group of
  the string (a maximal run of characters that are not whitespace) is not an even number of
  hexadecimal digits, and returns a payload on every other string. So it fails when the
  number of hexadecimal digits is odd and when a character is neither a hexadecimal digit nor
  whitespace, and also when whitespace separates the two digits of a byte. When it fails,
  no trial runs and nothing is written to or read from the port: V3 stops before it opens the
  port, with an empty trace; V2 has opened the port, prints its banner, and closes the port.
\<close>

theorem parse_failure:
  "(hex_to_bytes s = Inl ValueError) = (\<not> list_all group_ok (groups s)) \<and>
   (\<exists>bs. hex_to_bytes s = Inr bs) = list_all group_ok (groups s) \<and>
   (odd_digit_count s \<or> has_foreign_char s \<longrightarrow> hex_to_bytes s = Inl ValueError) \<and>
   (hex_to_bytes s = Inl ValueError \<longrightarrow>
      main_V3 s inputs old_file = ((initial_stats, init_csv old_file), [], Some ValueError) \<and>
      main_V2 port_name s inputs =
        (initial_stats,
         Port_Open # banner_V2 port_name s @ [Port_Close, Print ''Port closed.''],
         Some ValueError) \<and>
      filter is_transfer (fst (snd (main_V2 port_name s inputs))) = [])"
proof (intro conjI impI)
  show "(hex_to_bytes s = Inl ValueError) = (\<not> list_all group_ok (groups s))"
    unfolding hex_to_bytes_def by (rule fromhex_fails_iff)
  show "(\<exists>bs. hex_to_bytes s = Inr bs) = list_all group_ok (groups s)"
    unfolding hex_to_bytes_def by (rule fromhex_ok_iff)
next
  assume "odd_digit_count s \<or> has_foreign_char s"
  then show "hex_to_bytes s = Inl ValueError"
    unfolding hex_to_bytes_def by (rule fromhex_fails_if)
next
  assume f: "hex_to_bytes s = Inl ValueError"
  show "main_V3 s inputs old_file = ((initial_stats, init_csv old_file), [], Some ValueError)"
    using f by (rule main_V3_parse_failure)
  show m: "main_V2 port_name s inputs =
        (initial_stats,
         Port_Open # banner_V2 port_name s @ [Port_Close, Print ''Port closed.''],
         Some ValueError)"
    using f by (rule main_V2_parse_failure)
  show "filter is_transfer (fst (snd (main_V2 port_name s inputs))) = []"
    unfolding m by (simp add: banner_V2_def)
qed

theorem parse_failure_witness:
  "odd_digit_count ''5A 0'' \<and> hex_to_bytes ''5A 0'' = Inl ValueError \<and>
   has_foreign_char ''5A zz'' \<and> hex_to_bytes ''5A zz'' = Inl ValueError \<and>
   main_V3 ''5A 0'' [(''2026-01-01 12:00:00.100'', [0x5A])] None =
     ((initial_stats, Some [csv_header]), [], Some ValueError) \<and>
   filter is_transfer (fst (snd (main_V2 ''COM17'' ''5A 0'' [(''12:00:00.100'', [0x5A])]))) = []"
proof -
  have o: "odd_digit_count ''5A 0''" by code_simp
  have h: "has_foreign_char ''5A zz''" by code_simp
  from parse_failure [of "''5A 0''"] o
  have 1: "hex_to_bytes ''5A 0'' = Inl ValueError" by blast
  from parse_failure [of "''5A zz''"] h
  have 2: "hex_to_bytes ''5A zz'' = Inl ValueError" by blast
  from parse_failure [where s = "''5A 0''" and old_file = None
      and inputs = "[(''2026-01-01 12:00:00.100'', [0x5A])]"] 1
  have 3: "main_V3 ''5A 0'' [(''2026-01-01 12:00:00.100'', [0x5A])] None =
     ((initial_stats, init_csv None), [], Some ValueError)" by blast
  from parse_failure [where s = "''5A 0''" and port_name = "''COM17''"
      and inputs = "[(''12:00:00.100'', [0x5A])]"] 1
  have 4: "filter is_transfer
     (fst (snd (main_V2 ''COM17'' ''5A 0'' [(''12:00:00.100'', [0x5A])]))) = []" by blast
  from o h 1 2 3 4 show ?thesis by (simp add: init_csv_def)
qed

text \<open>
  C7 as stated lets \<^verbatim>\<open>5 A\<close> parse: it has two hexadecimal digits and no character other
  than digits and a space. \<^verbatim>\<open>bytes.fromhex\<close> rejects it.
\<close>

theorem parse_failure_counterexample:
  "\<not> odd_digit_count ''5 A'' \<and> \<not> has_foreign_char ''5 A'' \<and>
   hex_to_bytes ''5 A'' = Inl ValueError"
  by code_simp

end
